theory Spec2Isabelle
  imports Main "HOL-Library.AList"
begin

section \<open>JavaScript values and objects\<close>

text \<open>
  The values that travel through the plugin: what a form field holds, what a field
  handler's \<^verbatim>\<open>data()\<close> returns, what \<^verbatim>\<open>settings.data\<close> carries, and what a
  response body parses to. Numbers are restricted to the integers. A plain object is the
  list of its own enumerable properties in enumeration order; property names are ordinary
  names (the name \<^verbatim>\<open>__proto__\<close>, which JavaScript does not store as a property, is
  outside the model), and a value is never \<^verbatim>\<open>undefined\<close>.
\<close>

datatype jsval =
    JNull
  | JBool bool
  | JNum int
  | JStr string
  | JArr "jsval list"
  | JObj "(string \<times> jsval) list"

type_synonym jsobj = "(string \<times> jsval) list"

text \<open>The operator \<^verbatim>\<open>typeof\<close>.\<close>

fun typeof :: "jsval \<Rightarrow> string" where
  "typeof JNull = ''object''"
| "typeof (JBool b) = ''boolean''"
| "typeof (JNum n) = ''number''"
| "typeof (JStr s) = ''string''"
| "typeof (JArr xs) = ''object''"
| "typeof (JObj ps) = ''object''"

text \<open>
  jQuery's \<^verbatim>\<open>$.inArray(x, arr)\<close>, a library function that the source calls: the index
  of the first element equal to \<open>x\<close>, or \<open>-1\<close>.
\<close>

fun inArray_from :: "'a \<Rightarrow> 'a list \<Rightarrow> int \<Rightarrow> int" where
  "inArray_from x [] i = - 1"
| "inArray_from x (y # ys) i = (if y = x then i else inArray_from x ys (i + 1))"

definition inArray :: "'a \<Rightarrow> 'a list \<Rightarrow> int" where
  "inArray x arr = inArray_from x arr 0"

text \<open>
  jQuery's \<^verbatim>\<open>$.extend(target, options)\<close> on plain objects, a library function that the
  source calls: every property of \<open>options\<close> is assigned to \<open>target\<close>, in enumeration
  order. An assignment replaces the value of a property that exists and adds the
  property otherwise. (jQuery skips a property whose value is \<^verbatim>\<open>undefined\<close>; no
  \<^typ>\<open>jsval\<close> is.)
\<close>

fun jq_extend :: "jsobj \<Rightarrow> jsobj \<Rightarrow> jsobj" where
  "jq_extend target [] = target"
| "jq_extend target ((name, copy) # options) = jq_extend (AList.update name copy target) options"

section \<open>\<^verbatim>\<open>JSON.stringify\<close>\<close>

text \<open>
  Modelled from the spec: the built-in \<^verbatim>\<open>JSON.stringify\<close>, which the default
  \<^verbatim>\<open>serializeData\<close> calls, is not part of the source; the spec (section 4.2) names it
  the default structured-text encoding of the payload. This is its definition in
  ECMAScript on the values above. Strings are byte sequences (UTF-8): a string is quoted
  by escaping the double quote, the backslash and the control characters below U+0020,
  and by copying everything else.
\<close>

definition dquote :: char where
  "dquote = CHR 0x22"

definition backslash :: char where
  "backslash = CHR 0x5C"

definition hexdigit :: "nat \<Rightarrow> char" where
  "hexdigit n = (if n < 10 then char_of (48 + n) else char_of (87 + n))"

definition quote_char :: "char \<Rightarrow> string" where
  "quote_char c =
     (if c = dquote then [backslash, dquote]
      else if c = backslash then [backslash, backslash]
      else if c = CHR 0x08 then [backslash, CHR ''b'']
      else if c = CHR 0x0C then [backslash, CHR ''f'']
      else if c = CHR 0x0A then [backslash, CHR ''n'']
      else if c = CHR 0x0D then [backslash, CHR ''r'']
      else if c = CHR 0x09 then [backslash, CHR ''t'']
      else if (of_char c :: nat) < 32 then
        [backslash, CHR ''u'', CHR ''0'', CHR ''0'',
         hexdigit ((of_char c :: nat) div 16), hexdigit ((of_char c :: nat) mod 16)]
      else [c])"

definition quote :: "string \<Rightarrow> string" where
  "quote s = dquote # concat (map quote_char s) @ [dquote]"

fun digits :: "nat \<Rightarrow> string" where
  "digits n = (if n < 10 then [char_of (48 + n)] else digits (n div 10) @ [char_of (48 + n mod 10)])"

definition show_int :: "int \<Rightarrow> string" where
  "show_int i = (if i < 0 then CHR ''-'' # digits (nat (- i)) else digits (nat i))"

fun join :: "string \<Rightarrow> string list \<Rightarrow> string" where
  "join sep [] = []"
| "join sep [x] = x"
| "join sep (x # y # ys) = x @ sep @ join sep (y # ys)"

fun JSON_stringify :: "jsval \<Rightarrow> string" where
  "JSON_stringify JNull = ''null''"
| "JSON_stringify (JBool b) = (if b then ''true'' else ''false'')"
| "JSON_stringify (JNum n) = show_int n"
| "JSON_stringify (JStr s) = quote s"
| "JSON_stringify (JArr xs) = ''['' @ join '','' (map JSON_stringify xs) @ '']''"
| "JSON_stringify (JObj ps) =
     ''{'' @ join '','' (map (\<lambda>p. quote (fst p) @ '':'' @ JSON_stringify (snd p)) ps) @ ''}''"

section \<open>Settings, field handlers and the form\<close>

text \<open>
  A field handler has up to three capabilities. \<open>h_clear\<close>: the handler has an own
  property \<^verbatim>\<open>clear\<close>. \<open>h_error\<close>: its property \<^verbatim>\<open>error\<close> is truthy. \<open>h_data\<close>:
  \<open>None\<close> when its property \<^verbatim>\<open>data\<close> is not truthy, otherwise the value that
  \<^verbatim>\<open>data()\<close> returns in this submission.
\<close>

record fieldHandler =
  h_clear :: bool
  h_error :: bool
  h_data :: "jsval option"

text \<open>
  The settings object after \<^verbatim>\<open>$.extend(settings, options)\<close>. The callbacks
  \<^verbatim>\<open>beforeSubmit\<close>, \<^verbatim>\<open>afterSubmit\<close>, \<^verbatim>\<open>clearFormErrors\<close>, \<^verbatim>\<open>renderFormErrors\<close>,
  \<^verbatim>\<open>clearFieldErrors\<close>, \<^verbatim>\<open>renderFieldErrors\<close>, \<^verbatim>\<open>success\<close> and \<^verbatim>\<open>afterError\<close> only
  act on the page; each call of one of them is an event of the trace below. A function
  that the options supply is taken to return. \<open>customClearFieldErrors\<close> tells whether
  the options replace \<^verbatim>\<open>clearFieldErrors\<close>; the default of the source can throw, see
  below.
\<close>

record settings =
  url :: string
  type :: string
  excludeFields :: "string list"
  data :: jsobj
  timeout :: int
  disableSubmit :: bool
  fieldHandlers :: "(string \<times> fieldHandler) list"
  prepareData :: "jsval \<Rightarrow> jsval"
  serializeData :: "jsval \<Rightarrow> string"
  customClearFieldErrors :: bool

text \<open>The defaults of the source, for a form with the given action and method.\<close>

definition default_settings :: "string \<Rightarrow> string \<Rightarrow> settings" where
  "default_settings action method =
     \<lparr> url = action, type = method, excludeFields = [], data = [], timeout = 30000,
       disableSubmit = True, fieldHandlers = [],
       prepareData = (\<lambda>dataObj. dataObj),
       serializeData = (\<lambda>d. JSON_stringify d),
       customClearFieldErrors = False \<rparr>"

text \<open>
  What the handlers read from the page: \<open>serializeArray\<close> is the result of
  \<^verbatim>\<open>self.serializeArray()\<close> (name and value of every successful control, in document
  order), \<open>named\<close> the \<^verbatim>\<open>name\<close> attribute of every element matched by
  \<^verbatim>\<open>self.find('[name]')\<close>.
\<close>

record form =
  serializeArray :: "(string \<times> string) list"
  named :: "string list"

text \<open>The response object handed to the error callback of \<^verbatim>\<open>$.ajax\<close>.\<close>

record jqXHR =
  status :: int
  responseText :: "string option"

record request =
  req_url :: string
  req_type :: string
  req_timeout :: int
  req_data :: string

text \<open>
  The observable actions of the plugin, in the order in which they happen. A key of an
  error object is a property name, or an index when the object is an array.
\<close>

datatype key = Name string | Index nat

datatype event =
    StopPropagation
  | CallData string
  | CallPrepareData jsval
  | CallSerializeData jsval
  | DisableSubmit
  | EnableSubmitLater
  | ClearFormErrors
  | HandlerClear string
  | ClearFieldErrors string
  | BeforeSubmit
  | AfterSubmit
  | Ajax request
  | Success jsval
  | RenderFormErrors jsval
  | HandlerError key jsval
  | RenderFieldErrors key jsval
  | AfterError string nat jqXHR
  | ConsoleLog string
  | ConsoleLogResponse jqXHR

section \<open>\<^verbatim>\<open>getFormData\<close>\<close>

text \<open>The loop over \<^verbatim>\<open>formData\<close> (source lines 138 to 143).\<close>

fun collectFields :: "string list \<Rightarrow> (string \<times> string) list \<Rightarrow> jsobj \<Rightarrow> jsobj" where
  "collectFields ex [] dataObj = dataObj"
| "collectFields ex ((name, v) # formData) dataObj =
     collectFields ex formData
       (if \<not> (length ex \<noteq> 0) \<and> inArray name ex = - 1
        then AList.update name (JStr v) dataObj else dataObj)"

text \<open>The loop over \<^verbatim>\<open>settings.fieldHandlers\<close> (source lines 146 to 150).\<close>

fun collectHandlers :: "(string \<times> fieldHandler) list \<Rightarrow> jsobj \<Rightarrow> event list \<times> jsobj" where
  "collectHandlers [] dataObj = ([], dataObj)"
| "collectHandlers ((k, v) # hs) dataObj =
     (case h_data v of
        None \<Rightarrow> collectHandlers hs dataObj
      | Some d \<Rightarrow>
          (case collectHandlers hs (AList.update k d dataObj) of
             (es, dataObj') \<Rightarrow> (CallData k # es, dataObj')))"

text \<open>The object built before \<^verbatim>\<open>settings.prepareData\<close> is called, and the calls made.\<close>

definition collect :: "settings \<Rightarrow> form \<Rightarrow> event list \<times> jsobj" where
  "collect s f =
     (case collectHandlers (fieldHandlers s)
             (collectFields (excludeFields s) (serializeArray f) []) of
        (es, dataObj) \<Rightarrow> (es, jq_extend dataObj (data s)))"

definition getFormData :: "settings \<Rightarrow> form \<Rightarrow> event list \<times> jsval" where
  "getFormData s f =
     (case collect s f of
        (es, dataObj) \<Rightarrow> (es @ [CallPrepareData (JObj dataObj)], prepareData s (JObj dataObj)))"

section \<open>The callbacks around a request\<close>

text \<open>
  How a call ends: it returns, or it throws. The only exception of the model is the
  syntax error of jQuery's selector engine, with the selector it rejects.
\<close>

datatype completion = Returns | Throws string

text \<open>
  The default \<^verbatim>\<open>clearFieldErrors\<close> (source lines 96 to 100) puts the field name into
  a selector without quoting it, and \<^verbatim>\<open>self.find\<close> throws when jQuery's selector engine
  rejects the selector (the name \<^verbatim>\<open>items[]\<close> gives \<^verbatim>\<open>[name=items[]]\<close>, which it
  rejects). The engine is a library that the source calls; which selectors it accepts is
  the parameter \<open>accepts\<close>.
\<close>

definition name_selector :: "string \<Rightarrow> string" where
  "name_selector fieldName = ''[name='' @ fieldName @ '']''"

definition clearFieldErrors :: "(string \<Rightarrow> bool) \<Rightarrow> settings \<Rightarrow> string \<Rightarrow> completion" where
  "clearFieldErrors accepts s fieldName =
     (if customClearFieldErrors s then Returns
      else if accepts (name_selector fieldName) then Returns
      else Throws (name_selector fieldName))"

text \<open>
  \<^verbatim>\<open>beforeSubmitCallback\<close> (source lines 162 to 186). The function given to
  \<^verbatim>\<open>each\<close> (lines 175 to 182) makes one call for an element, which is the event, and
  ends as that call ends.
\<close>

definition clearField :: "(string \<Rightarrow> bool) \<Rightarrow> settings \<Rightarrow> string \<Rightarrow> event \<times> completion" where
  "clearField accepts s name =
     (case map_of (fieldHandlers s) name of
        Some h \<Rightarrow>
          if h_clear h then (HandlerClear name, Returns)
          else (ClearFieldErrors name, clearFieldErrors accepts s name)
      | None \<Rightarrow> (ClearFieldErrors name, clearFieldErrors accepts s name))"

text \<open>The loop of \<^verbatim>\<open>each\<close> over the named elements: an exception ends it.\<close>

fun each_clearField ::
  "(string \<Rightarrow> bool) \<Rightarrow> settings \<Rightarrow> string list \<Rightarrow> event list \<times> completion" where
  "each_clearField accepts s [] = ([], Returns)"
| "each_clearField accepts s (name # names) =
     (case clearField accepts s name of
        (e, Returns) \<Rightarrow>
          (case each_clearField accepts s names of (es, c) \<Rightarrow> (e # es, c))
      | (e, Throws m) \<Rightarrow> ([e], Throws m))"

definition beforeSubmitCallback ::
  "(string \<Rightarrow> bool) \<Rightarrow> settings \<Rightarrow> form \<Rightarrow> event list \<times> completion" where
  "beforeSubmitCallback accepts s f =
     (case each_clearField accepts s (named f) of
        (es, c) \<Rightarrow>
          ((if disableSubmit s then [DisableSubmit] else []) @
           [ClearFormErrors] @
           es @
           (case c of Returns \<Rightarrow> [BeforeSubmit] | Throws m \<Rightarrow> []),
           c))"

text \<open>
  \<^verbatim>\<open>afterSubmitCallback\<close> (source lines 189 to 205). The submit buttons are enabled
  again by a timer, 200 ms later.
\<close>

definition afterSubmitCallback :: "settings \<Rightarrow> event list" where
  "afterSubmitCallback s =
     (if disableSubmit s then [EnableSubmitLater] else []) @ [AfterSubmit]"

text \<open>
  \<^verbatim>\<open>errorsCallback\<close> (source lines 208 to 231): \<^verbatim>\<open>$.each\<close> visits the properties of
  an object, or the elements of an array with their indices. It is only ever called with
  an object or an array. The default \<^verbatim>\<open>renderFieldErrors\<close> builds its selector from the
  key as \<^verbatim>\<open>clearFieldErrors\<close> does from the name; the keys of an error object are
  taken to be names that the selector engine accepts.
\<close>

definition routeError :: "settings \<Rightarrow> key \<Rightarrow> string \<Rightarrow> jsval \<Rightarrow> event" where
  "routeError s k name v =
     (if k = Name ''__all__'' then RenderFormErrors v
      else (case map_of (fieldHandlers s) name of
              Some h \<Rightarrow> if h_error h then HandlerError k v else RenderFieldErrors k v
            | None \<Rightarrow> RenderFieldErrors k v))"

fun errorsCallback :: "settings \<Rightarrow> jsval \<Rightarrow> event list" where
  "errorsCallback s (JObj ps) = map (\<lambda>p. routeError s (Name (fst p)) (fst p) (snd p)) ps"
| "errorsCallback s (JArr xs) =
     map (\<lambda>i. routeError s (Index i) (digits i) (xs ! i)) [0 ..< length xs]"
| "errorsCallback s v = []"

section \<open>\<^verbatim>\<open>getJSONObject\<close>\<close>

text \<open>
  Reading the property \<^verbatim>\<open>responseText\<close> of a value: \<open>None\<close> is a \<^verbatim>\<open>TypeError\<close>
  (the value is \<^verbatim>\<open>null\<close>), \<open>Some None\<close> is \<^verbatim>\<open>undefined\<close>.
\<close>

fun get_responseText :: "jsval \<Rightarrow> jsval option option" where
  "get_responseText JNull = None"
| "get_responseText (JObj ps) = Some (map_of ps ''responseText'')"
| "get_responseText v = Some None"

text \<open>
  \<^verbatim>\<open>getJSONObject\<close> (source lines 235 to 250). Its body does not read its parameter
  \<^verbatim>\<open>jsonString\<close>; it reads the identifier \<^verbatim>\<open>jqXHR\<close>, which no enclosing function of
  the source declares (it is a parameter of the error callback only), so that the
  identifier is looked up in the global object \<open>g\<close> of the page. An unbound identifier
  is a \<^verbatim>\<open>ReferenceError\<close>, raised inside the \<^verbatim>\<open>try\<close> block. The library function
  \<^verbatim>\<open>$.parseJSON\<close> is a parameter: it takes a value or \<^verbatim>\<open>undefined\<close> (\<open>None\<close>), and
  returns a value or throws (\<open>None\<close>). The result \<^verbatim>\<open>false\<close> is \<open>JBool False\<close>.
\<close>

definition getJSONObject ::
  "(jsval option \<Rightarrow> jsval option) \<Rightarrow> (string \<Rightarrow> jsval option) \<Rightarrow> string option \<Rightarrow> jsval" where
  "getJSONObject parseJSON g jsonString =
     (case g ''jqXHR'' of
        None \<Rightarrow> JBool False
      | Some x \<Rightarrow>
          (case get_responseText x of
             None \<Rightarrow> JBool False
           | Some t \<Rightarrow>
               (case parseJSON t of
                  None \<Rightarrow> JBool False
                | Some obj \<Rightarrow>
                    if obj = JNull \<or> typeof obj \<noteq> ''object'' then JBool False else obj)))"

section \<open>The submit handler and the callbacks of the request\<close>

text \<open>
  The handler of the submit event (source lines 255 to 321), up to the call of
  \<^verbatim>\<open>$.ajax\<close>; it then returns \<^verbatim>\<open>false\<close>. Nothing catches an exception of
  \<^verbatim>\<open>beforeSubmitCallback\<close>: the handler ends with it, before the request and without
  returning \<^verbatim>\<open>false\<close>.
\<close>

definition submit ::
  "(string \<Rightarrow> bool) \<Rightarrow> settings \<Rightarrow> form \<Rightarrow> event list \<times> completion" where
  "submit accepts s f =
     (case getFormData s f of
        (es, d) \<Rightarrow>
          (case beforeSubmitCallback accepts s f of
             (bs, c) \<Rightarrow>
               ([StopPropagation] @ es @ [CallSerializeData d] @ bs @
                (case c of
                   Returns \<Rightarrow>
                     [Ajax \<lparr> req_url = url s, req_type = type s, req_timeout = timeout s,
                            req_data = serializeData s d \<rparr>]
                 | Throws m \<Rightarrow> []),
                c)))"

text \<open>The \<^verbatim>\<open>success\<close> callback of the request (source lines 274 to 280).\<close>

definition ajax_success :: "settings \<Rightarrow> jsval \<Rightarrow> event list" where
  "ajax_success s resp = afterSubmitCallback s @ [Success resp]"

text \<open>The \<^verbatim>\<open>error\<close> callback of the request (source lines 281 to 315).\<close>

definition ajax_error ::
  "(jsval option \<Rightarrow> jsval option) \<Rightarrow> (string \<Rightarrow> jsval option) \<Rightarrow> settings \<Rightarrow>
     jqXHR \<Rightarrow> string \<Rightarrow> event list" where
  "ajax_error parseJSON g s x statusText =
     afterSubmitCallback s @
     (let errors = getJSONObject parseJSON g (responseText x) in
        if errors \<noteq> JBool False
        then errorsCallback s errors @ [AfterError statusText 0 x]
        else []) @
     (if status x = 0
      then errorsCallback s (JObj [(''__all__'', JArr [JStr ''Internet connection Lost''])]) @
           [AfterError statusText 1 x]
      else errorsCallback s (JObj [(''__all__'', JArr [JStr statusText])]) @
           [AfterError statusText 2 x]) @
     [ConsoleLog (''AJAX Exception: '' @ statusText), ConsoleLogResponse x]"

section \<open>The page around the plugin\<close>

text \<open>
  What a run of the plugin depends on, in the page: whether the elements of the form
  that match \<^verbatim>\<open>[type=submit]\<close> carry the attribute \<^verbatim>\<open>disabled\<close> (the plugin sets and
  removes it on these elements only, source lines 170 and 199), how many requests were
  sent and are not yet answered, and how many timers of \<^verbatim>\<open>afterSubmitCallback\<close> are
  pending.
\<close>

record page =
  submit_disabled :: bool
  outstanding :: nat
  enable_timers :: nat

definition idle :: page where
  "idle = \<lparr> submit_disabled = False, outstanding = 0, enable_timers = 0 \<rparr>"

text \<open>The effect of an action of the plugin on the page.\<close>

fun perform :: "event \<Rightarrow> page \<Rightarrow> page" where
  "perform DisableSubmit p = p \<lparr> submit_disabled := True \<rparr>"
| "perform EnableSubmitLater p = p \<lparr> enable_timers := Suc (enable_timers p) \<rparr>"
| "perform (Ajax r) p = p \<lparr> outstanding := Suc (outstanding p) \<rparr>"
| "perform e p = p"

text \<open>
  What triggers a submit event: a script, an element that matches \<^verbatim>\<open>[type=submit]\<close>,
  or another control (a button without the attribute \<^verbatim>\<open>type\<close>, an image input, the
  Enter key where the default button of the form is not such an element).
\<close>

datatype trigger = Script | TypeSubmitElement | OtherControl

text \<open>
  What can happen to the form: a submit event, the answer to a request (success or
  failure), and a timer of \<^verbatim>\<open>afterSubmitCallback\<close> that fires.
\<close>

datatype stimulus =
    SubmitEvent trigger form
  | Succeeds jsval
  | Fails jqXHR string
  | TimerFires

text \<open>
  An answer needs an outstanding request, and a timer that fires needs to be pending.
  An element that matches \<^verbatim>\<open>[type=submit]\<close> triggers no submit event while it is
  disabled; nothing that the plugin does holds back the other triggers.
\<close>

fun deliverable :: "stimulus \<Rightarrow> page \<Rightarrow> bool" where
  "deliverable (SubmitEvent t f) p = (t \<noteq> TypeSubmitElement \<or> \<not> submit_disabled p)"
| "deliverable (Succeeds resp) p = (0 < outstanding p)"
| "deliverable (Fails x statusText) p = (0 < outstanding p)"
| "deliverable TimerFires p = (0 < enable_timers p)"

text \<open>The stimuli other than submit events of a script or of another control.\<close>

fun by_type_submit :: "stimulus \<Rightarrow> bool" where
  "by_type_submit (SubmitEvent t f) = (t = TypeSubmitElement)"
| "by_type_submit e = True"

text \<open>
  The reaction of the plugin: the submit handler, the callbacks of the request (the answer
  settles one request), and the function given to \<^verbatim>\<open>setTimeout\<close> (source lines 198 to
  200), which removes the attribute \<^verbatim>\<open>disabled\<close>.
\<close>

fun react ::
  "(string \<Rightarrow> bool) \<Rightarrow> (jsval option \<Rightarrow> jsval option) \<Rightarrow> (string \<Rightarrow> jsval option) \<Rightarrow>
     settings \<Rightarrow> stimulus \<Rightarrow> page \<Rightarrow> page" where
  "react accepts parseJSON g s (SubmitEvent t f) p = fold perform (fst (submit accepts s f)) p"
| "react accepts parseJSON g s (Succeeds resp) p =
     fold perform (ajax_success s resp) (p \<lparr> outstanding := outstanding p - 1 \<rparr>)"
| "react accepts parseJSON g s (Fails x statusText) p =
     fold perform (ajax_error parseJSON g s x statusText) (p \<lparr> outstanding := outstanding p - 1 \<rparr>)"
| "react accepts parseJSON g s TimerFires p =
     p \<lparr> enable_timers := enable_timers p - 1, submit_disabled := False \<rparr>"

fun run ::
  "(string \<Rightarrow> bool) \<Rightarrow> (jsval option \<Rightarrow> jsval option) \<Rightarrow> (string \<Rightarrow> jsval option) \<Rightarrow>
     settings \<Rightarrow> stimulus list \<Rightarrow> page \<Rightarrow> page option" where
  "run accepts parseJSON g s [] p = Some p"
| "run accepts parseJSON g s (e # es) p =
     (if deliverable e p then run accepts parseJSON g s es (react accepts parseJSON g s e p)
      else None)"

text \<open>
  The invariant of the runs in which every submit event comes from an element that
  matches \<^verbatim>\<open>[type=submit]\<close>: at most one request or timer is pending, and these
  elements are disabled while one is.
\<close>

definition single_flight :: "page \<Rightarrow> bool" where
  "single_flight p =
     (outstanding p + enable_timers p \<le> 1 \<and>
      (0 < outstanding p + enable_timers p \<longrightarrow> submit_disabled p))"

section \<open>Parsing the default serialization\<close>

text \<open>
  Modelled from the spec: the parse on the receiving side is not part of the source. The
  spec asks (sections 4.2 and 8) for a parse that reverses the default serialization,
  which is JSON. This is the JSON grammar on the texts that denote an object whose
  members are all strings, with insignificant whitespace, the escapes of the grammar, and
  the last of two members with the same name winning; the result is \<open>None\<close> for every
  other text. An escape with four hexadecimal digits yields the UTF-8 bytes of its code
  point; escaped surrogates are outside the model.
\<close>

datatype token = TLBrace | TRBrace | TColon | TComma | TString string

definition whitespace :: "char \<Rightarrow> bool" where
  "whitespace c = (c = CHR 0x20 \<or> c = CHR 0x09 \<or> c = CHR 0x0A \<or> c = CHR 0x0D)"

definition hexval :: "char \<Rightarrow> nat option" where
  "hexval c =
     (let n = (of_char c :: nat) in
      if 48 \<le> n \<and> n \<le> 57 then Some (n - 48)
      else if 97 \<le> n \<and> n \<le> 102 then Some (n - 87)
      else if 65 \<le> n \<and> n \<le> 70 then Some (n - 55)
      else None)"

definition utf8 :: "nat \<Rightarrow> string option" where
  "utf8 n =
     (if n < 0x80 then Some [char_of n]
      else if n < 0x800 then Some [char_of (0xC0 + n div 64), char_of (0x80 + n mod 64)]
      else if 0xD800 \<le> n \<and> n < 0xE000 then None
      else Some [char_of (0xE0 + n div 4096), char_of (0x80 + n div 64 mod 64),
                 char_of (0x80 + n mod 64)])"

definition unicode_escape :: "char \<Rightarrow> char \<Rightarrow> char \<Rightarrow> char \<Rightarrow> string option" where
  "unicode_escape h1 h2 h3 h4 =
     (case (hexval h1, hexval h2, hexval h3, hexval h4) of
        (Some a, Some b, Some c, Some d) \<Rightarrow> utf8 (4096 * a + 256 * b + 16 * c + d)
      | _ \<Rightarrow> None)"

definition unescape :: "char \<Rightarrow> char option" where
  "unescape e =
     (if e = dquote then Some dquote
      else if e = backslash then Some backslash
      else if e = CHR ''/'' then Some CHR ''/''
      else if e = CHR ''b'' then Some (CHR 0x08)
      else if e = CHR ''f'' then Some (CHR 0x0C)
      else if e = CHR ''n'' then Some (CHR 0x0A)
      else if e = CHR ''r'' then Some (CHR 0x0D)
      else if e = CHR ''t'' then Some (CHR 0x09)
      else None)"

text \<open>
  The tokens of a text. The first argument is \<open>None\<close> between tokens, and the bytes
  read so far inside a string.
\<close>

fun lex :: "string option \<Rightarrow> string \<Rightarrow> token list option" where
  "lex None [] = Some []"
| "lex None (c # cs) =
     (if whitespace c then lex None cs
      else if c = CHR ''{'' then map_option ((#) TLBrace) (lex None cs)
      else if c = CHR ''}'' then map_option ((#) TRBrace) (lex None cs)
      else if c = CHR '':'' then map_option ((#) TColon) (lex None cs)
      else if c = CHR '','' then map_option ((#) TComma) (lex None cs)
      else if c = dquote then lex (Some []) cs
      else None)"
| "lex (Some acc) [] = None"
| "lex (Some acc) (c # cs) =
     (if c = dquote then map_option ((#) (TString acc)) (lex None cs)
      else if c = backslash then
        (case cs of
           [] \<Rightarrow> None
         | e # cs1 \<Rightarrow>
             if e = CHR ''u'' then
               (case cs1 of
                  h1 # h2 # h3 # h4 # cs2 \<Rightarrow>
                    (case unicode_escape h1 h2 h3 h4 of
                       None \<Rightarrow> None
                     | Some bytes \<Rightarrow> lex (Some (acc @ bytes)) cs2)
                | _ \<Rightarrow> None)
             else
               (case unescape e of
                  None \<Rightarrow> None
                | Some x \<Rightarrow> lex (Some (acc @ [x])) cs1))
      else if (of_char c :: nat) < 32 then None
      else lex (Some (acc @ [c])) cs)"

text \<open>The members of an object, after the opening brace.\<close>

fun members :: "token list \<Rightarrow> jsobj \<Rightarrow> jsobj option" where
  "members [TString k, TColon, TString v, TRBrace] obj = Some (AList.update k (JStr v) obj)"
| "members (TString k # TColon # TString v # TComma # ts) obj =
     members ts (AList.update k (JStr v) obj)"
| "members ts obj = None"

definition parse_string_object :: "string \<Rightarrow> jsval option" where
  "parse_string_object input =
     (case lex None input of
        None \<Rightarrow> None
      | Some ts \<Rightarrow>
          (case ts of
             TLBrace # ms \<Rightarrow>
               if ms = [TRBrace] then Some (JObj []) else map_option JObj (members ms [])
           | _ \<Rightarrow> None))"

text \<open>A payload whose values are all strings.\<close>

definition string_payload :: "(string \<times> string) list \<Rightarrow> jsval" where
  "string_payload kvs = JObj (map (\<lambda>p. (fst p, JStr (snd p))) kvs)"

section \<open>Auxiliary definitions for the statements\<close>

text \<open>
  What the field handler registered under \<open>k\<close> contributes: the result of its
  \<^verbatim>\<open>data()\<close>, when there is such a handler and it has the capability.
\<close>

definition handler_data :: "settings \<Rightarrow> string \<Rightarrow> jsval option" where
  "handler_data s k = (case map_of (fieldHandlers s) k of Some h \<Rightarrow> h_data h | None \<Rightarrow> None)"

text \<open>Example forms and settings.\<close>

definition login_form :: form where
  "login_form =
     \<lparr> serializeArray = [(''username'', ''abc''), (''csrf'', ''t0'')],
       named = [''username'', ''csrf''] \<rparr>"

definition exclude_csrf :: settings where
  "exclude_csrf = (default_settings ''/login'' ''POST'') \<lparr> excludeFields := [''csrf''] \<rparr>"

definition token_handler :: fieldHandler where
  "token_handler = \<lparr> h_clear = False, h_error = False, h_data = Some (JStr ''from-handler'') \<rparr>"

definition three_sources :: settings where
  "three_sources =
     (default_settings ''/login'' ''POST'')
       \<lparr> data := [(''csrf'', JStr ''static'')],
         fieldHandlers := [(''csrf'', token_handler), (''username'', token_handler)] \<rparr>"

definition static_over_handler :: settings where
  "static_over_handler =
     (default_settings ''/login'' ''POST'')
       \<lparr> data := [(''csrf'', JStr ''static'')],
         fieldHandlers := [(''csrf'', token_handler)] \<rparr>"

definition empty_form :: form where
  "empty_form = \<lparr> serializeArray = [], named = [] \<rparr>"

definition handler_only :: settings where
  "handler_only =
     (default_settings ''/login'' ''POST'')
       \<lparr> excludeFields := [''csrf''],
         fieldHandlers := [(''csrf'', token_handler)] \<rparr>"

text \<open>Example responses.\<close>

definition password_errors :: jsval where
  "password_errors = JObj [(''password'', JArr [JStr ''too short''])]"

definition rejected :: jqXHR where
  \<open>rejected = \<lparr> status = 400, responseText = Some ''{"password": ["too short"]}'' \<rparr>\<close>

definition offline :: jqXHR where
  "offline = \<lparr> status = 0, responseText = None \<rparr>"

text \<open>
  \<open>before a b tr\<close>: the event \<open>a\<close> occurs in the trace earlier than the first \<open>b\<close>.
\<close>

definition before :: "event \<Rightarrow> event \<Rightarrow> event list \<Rightarrow> bool" where
  "before a b tr = (a \<in> set (takeWhile (\<lambda>e. e \<noteq> b) tr))"

definition login_request :: jsval where
  "login_request = JObj [(''username'', JStr ''from-handler''), (''csrf'', JStr ''static'')]"

text \<open>A form with a field named \<^verbatim>\<open>items[]\<close> after the field \<^verbatim>\<open>username\<close>.\<close>

definition items_form :: form where
  "items_form =
     \<lparr> serializeArray = [(''username'', ''abc''), (''items[]'', ''1'')],
       named = [''username'', ''items[]'', ''csrf''] \<rparr>"

definition items_request :: jsval where
  "items_request = JObj [(''username'', JStr ''abc''), (''items[]'', JStr ''1'')]"

text \<open>
  For the examples, a selector engine that accepts \<^verbatim>\<open>[name=v]\<close> when \<open>v\<close> is a
  non-empty run of letters, digits, underscores, hyphens and bytes above 0x7F, and
  nothing else: what jQuery does with a value that has no quotes, no escapes and no
  blanks around it.
\<close>

definition identifier_char :: "char \<Rightarrow> bool" where
  "identifier_char c =
     (let n = (of_char c :: nat) in
      (48 \<le> n \<and> n \<le> 57) \<or> (65 \<le> n \<and> n \<le> 90) \<or> (97 \<le> n \<and> n \<le> 122) \<or>
      n = 95 \<or> n = 45 \<or> 128 \<le> n)"

definition accepts_identifier :: "string \<Rightarrow> bool" where
  "accepts_identifier selector =
     (7 < length selector \<and> take 6 selector = ''[name='' \<and> last selector = CHR '']'' \<and>
      list_all identifier_char (butlast (drop 6 selector)))"

text \<open>Whether the call made for a named element returns.\<close>

definition clears :: "(string \<Rightarrow> bool) \<Rightarrow> settings \<Rightarrow> string \<Rightarrow> bool" where
  "clears accepts s name = (snd (clearField accepts s name) = Returns)"

section \<open>Properties of \<^verbatim>\<open>getFormData\<close>\<close>

lemma inArray_from_miss: "0 \<le> i \<Longrightarrow> (inArray_from x arr i = - 1) = (x \<notin> set arr)"
  by (induction arr arbitrary: i) auto

lemma inArray_miss: "(inArray x arr = - 1) = (x \<notin> set arr)"
  by (simp add: inArray_def inArray_from_miss)

lemma collectFields_nonempty: "ex \<noteq> [] \<Longrightarrow> collectFields ex formData dataObj = dataObj"
  by (induction formData arbitrary: dataObj) auto

lemma map_of_collectFields_empty:
  "map_of (collectFields [] formData dataObj) k =
     (case map_of (rev formData) k of Some v \<Rightarrow> Some (JStr v) | None \<Rightarrow> map_of dataObj k)"
proof (induction formData arbitrary: dataObj)
  case Nil
  show ?case by simp
next
  case (Cons p formData)
  obtain n v where p: "p = (n, v)" by (cases p)
  show ?case
    by (simp add: p Cons.IH inArray_def update_conv' map_add_def split: option.split)
qed

lemma map_of_jq_extend:
  "map_of (jq_extend target options) k =
     (case map_of (rev options) k of Some v \<Rightarrow> Some v | None \<Rightarrow> map_of target k)"
proof (induction options arbitrary: target)
  case Nil
  show ?case by simp
next
  case (Cons p options)
  obtain n v where p: "p = (n, v)" by (cases p)
  show ?case
    by (simp add: p Cons.IH update_conv' map_add_def split: option.split)
qed

lemma map_of_rev_distinct: "distinct (map fst ps) \<Longrightarrow> map_of (rev ps) = map_of ps"
  by (subst map_of_inject_set) (simp_all add: rev_map [symmetric])

lemma map_of_collectHandlers:
  "distinct (map fst hs) \<Longrightarrow>
   map_of (snd (collectHandlers hs dataObj)) k =
     (case map_of hs k of
        Some h \<Rightarrow> (case h_data h of Some d \<Rightarrow> Some d | None \<Rightarrow> map_of dataObj k)
      | None \<Rightarrow> map_of dataObj k)"
proof (induction hs arbitrary: dataObj)
  case Nil
  show ?case by simp
next
  case (Cons p hs)
  obtain n h where p: "p = (n, h)" by (cases p)
  from Cons.prems have notin: "n \<notin> fst ` set hs" and d: "distinct (map fst hs)"
    by (simp_all add: p)
  from notin have none: "map_of hs n = None"
    by (simp add: map_of_eq_None_iff)
  show ?case
  proof (cases "k = n")
    case True
    note IH = Cons.IH [OF d, unfolded True]
    show ?thesis
      using none by (simp add: p True IH update_conv' case_prod_beta split: option.split)
  next
    case False
    then show ?thesis
      by (simp add: p Cons.IH [OF d] update_conv' case_prod_beta split: option.split)
  qed
qed

lemma fst_collectHandlers:
  "fst (collectHandlers hs dataObj) =
     map CallData (map fst (filter (\<lambda>p. h_data (snd p) \<noteq> None) hs))"
proof (induction hs arbitrary: dataObj)
  case Nil
  show ?case by simp
next
  case (Cons p hs)
  obtain n h where p: "p = (n, h)" by (cases p)
  show ?case
    by (cases "h_data h") (simp_all add: p Cons.IH case_prod_beta)
qed

lemma map_of_collect:
  assumes "distinct (map fst (fieldHandlers s))"
  shows "map_of (snd (collect s f)) k =
     (case map_of (rev (data s)) k of
        Some v \<Rightarrow> Some v
      | None \<Rightarrow>
          (case handler_data s k of
             Some d \<Rightarrow> Some d
           | None \<Rightarrow> map_of (collectFields (excludeFields s) (serializeArray f) []) k))"
  using assms
  by (simp add: collect_def case_prod_beta map_of_jq_extend map_of_collectHandlers
      handler_data_def split: option.split)

lemma snd_getFormData: "snd (getFormData s f) = prepareData s (JObj (snd (collect s f)))"
  by (simp add: getFormData_def case_prod_beta)

lemma fst_getFormData:
  "fst (getFormData s f) =
     map CallData (map fst (filter (\<lambda>p. h_data (snd p) \<noteq> None) (fieldHandlers s))) @
     [CallPrepareData (JObj (snd (collect s f)))]"
  by (simp add: getFormData_def collect_def case_prod_beta fst_collectHandlers)

text \<open>
  Claim C1 says that a field's value is collected if and only if its name is not in
  \<^verbatim>\<open>excludeFields\<close>. With the exclusion list \<^verbatim>\<open>['csrf']\<close>, the field
  \<^verbatim>\<open>username\<close> is not excluded and is in the form, yet \<^verbatim>\<open>getFormData\<close> returns the
  empty object: the test \<^verbatim>\<open>!settings.excludeFields.length\<close> fails for every field as
  soon as the list is not empty.
\<close>

theorem getFormData_drops_every_field:
  "''username'' \<notin> set (excludeFields exclude_csrf) \<and>
   (''username'', ''abc'') \<in> set (serializeArray login_form) \<and>
   snd (getFormData exclude_csrf login_form) = JObj []"
  by (simp add: exclude_csrf_def login_form_def default_settings_def getFormData_def collect_def)

lemma collectFields_spec:
  "map_of (collectFields ex formData []) k =
     (if ex = [] then map_option JStr (map_of (rev formData) k) else None)"
  by (cases "ex = []") (simp_all add: map_of_collectFields_empty collectFields_nonempty split: option.split)

text \<open>
  Claim C7: the value of a key in the object that \<^verbatim>\<open>getFormData\<close> hands to
  \<^verbatim>\<open>prepareData\<close> follows the precedence static, then handler, then DOM. An entry of
  \<^verbatim>\<open>settings.data\<close> wins; otherwise the result of the field handler's \<^verbatim>\<open>data()\<close>;
  otherwise what the loop over the form fields collected.
\<close>

theorem getFormData_precedence:
  assumes "distinct (map fst (fieldHandlers s))" and "distinct (map fst (data s))"
  shows "snd (getFormData s f) = prepareData s (JObj (snd (collect s f))) \<and>
     map_of (snd (collect s f)) k =
       (case map_of (data s) k of
          Some v \<Rightarrow> Some v
        | None \<Rightarrow>
            (case handler_data s k of
               Some d \<Rightarrow> Some d
             | None \<Rightarrow> map_of (collectFields (excludeFields s) (serializeArray f) []) k))"
  using assms by (simp add: snd_getFormData map_of_collect map_of_rev_distinct)

text \<open>
  Claim C7, at a concrete input: \<^verbatim>\<open>csrf\<close> is a form field, has a handler with
  \<^verbatim>\<open>data()\<close> and is a key of \<^verbatim>\<open>settings.data\<close>; \<^verbatim>\<open>username\<close> is a form field
  and has a handler with \<^verbatim>\<open>data()\<close>.
\<close>

theorem getFormData_precedence_witness:
  "distinct (map fst (fieldHandlers three_sources)) \<and>
   distinct (map fst (data three_sources)) \<and>
   map_of (snd (collect three_sources login_form)) ''csrf'' = Some (JStr ''static'') \<and>
   map_of (snd (collect three_sources login_form)) ''username'' = Some (JStr ''from-handler'')"
  using getFormData_precedence [of three_sources login_form "''csrf''"]
    getFormData_precedence [of three_sources login_form "''username''"]
  by (simp add: three_sources_def default_settings_def handler_data_def token_handler_def)

text \<open>
  Claim C10 says that a key whose handler has \<^verbatim>\<open>data\<close> is always mapped to the result
  of \<^verbatim>\<open>data()\<close>. It is not when \<^verbatim>\<open>settings.data\<close> has the same key: the handler of
  \<^verbatim>\<open>csrf\<close> returns \<^verbatim>\<open>'from-handler'\<close>, and the payload maps \<^verbatim>\<open>csrf\<close> to the
  static value.
\<close>

theorem handler_data_overridden_counterexample:
  "map_of (fieldHandlers static_over_handler) ''csrf'' = Some token_handler \<and>
   h_data token_handler = Some (JStr ''from-handler'') \<and>
   snd (getFormData static_over_handler empty_form) = JObj [(''csrf'', JStr ''static'')]"
  by (simp add: static_over_handler_def token_handler_def empty_form_def default_settings_def
      getFormData_def collect_def)

text \<open>
  Claim C10, amended: a key \<open>k\<close> of \<^verbatim>\<open>fieldHandlers\<close> whose handler has \<^verbatim>\<open>data\<close>,
  and which is not a key of \<^verbatim>\<open>settings.data\<close>, is mapped to the result of \<^verbatim>\<open>data()\<close>
  in the object handed to \<^verbatim>\<open>prepareData\<close>, whatever the form fields and the exclusion
  list are.
\<close>

theorem handler_data_collected:
  assumes "distinct (map fst (fieldHandlers s))"
    and "map_of (fieldHandlers s) k = Some h"
    and "h_data h = Some d"
    and "map_of (data s) k = None"
  shows "snd (getFormData s f) = prepareData s (JObj (snd (collect s f))) \<and>
     map_of (snd (collect s f)) k = Some d"
proof -
  from assms(4) have "map_of (rev (data s)) k = None"
    by (simp add: map_of_eq_None_iff)
  with assms(1-3) show ?thesis
    by (simp add: snd_getFormData map_of_collect handler_data_def)
qed

text \<open>
  Claim C10, at a concrete input: \<^verbatim>\<open>csrf\<close> is excluded and is not a field of the form,
  and its handler's value is in the payload.
\<close>

theorem handler_data_collected_witness:
  "''csrf'' \<in> set (excludeFields handler_only) \<and>
   ''csrf'' \<notin> fst ` set (serializeArray empty_form) \<and>
   map_of (snd (collect handler_only empty_form)) ''csrf'' = Some (JStr ''from-handler'') \<and>
   snd (getFormData handler_only empty_form) = JObj [(''csrf'', JStr ''from-handler'')]"
  using handler_data_collected [of handler_only "''csrf''" token_handler "JStr ''from-handler''" empty_form]
  by (simp add: handler_only_def token_handler_def empty_form_def default_settings_def
      getFormData_def collect_def)

section \<open>Properties of the error callback\<close>

lemma getJSONObject_unbound: "g ''jqXHR'' = None \<Longrightarrow> getJSONObject parseJSON g jsonString = JBool False"
  by (simp add: getJSONObject_def)

lemma routeError_all: "routeError s (Name ''__all__'') name v = RenderFormErrors v"
  by (simp add: routeError_def)

lemma errorsCallback_all: "errorsCallback s (JObj [(''__all__'', v)]) = [RenderFormErrors v]"
  by (simp add: routeError_def)

lemma ajax_error_unbound:
  "g ''jqXHR'' = None \<Longrightarrow>
   ajax_error parseJSON g s x statusText =
     afterSubmitCallback s @
     (if status x = 0
      then [RenderFormErrors (JArr [JStr ''Internet connection Lost'']), AfterError statusText 1 x]
      else [RenderFormErrors (JArr [JStr statusText]), AfterError statusText 2 x]) @
     [ConsoleLog (''AJAX Exception: '' @ statusText), ConsoleLogResponse x]"
  by (simp add: ajax_error_def getJSONObject_unbound routeError_all)

text \<open>
  Claim C9: where the page defines no global \<^verbatim>\<open>jqXHR\<close>, \<^verbatim>\<open>getJSONObject\<close> returns
  \<^verbatim>\<open>false\<close> for every argument and every behaviour of \<^verbatim>\<open>$.parseJSON\<close>, and the
  branch of the error callback guarded by \<^verbatim>\<open>errors !== false\<close> contributes nothing: the
  callback does what it does without that branch.
\<close>

theorem getJSONObject_returns_false:
  assumes "g ''jqXHR'' = None"
  shows "getJSONObject parseJSON g jsonString = JBool False \<and>
     ajax_error parseJSON g s x statusText =
       afterSubmitCallback s @
       (if status x = 0
        then [RenderFormErrors (JArr [JStr ''Internet connection Lost'']), AfterError statusText 1 x]
        else [RenderFormErrors (JArr [JStr statusText]), AfterError statusText 2 x]) @
       [ConsoleLog (''AJAX Exception: '' @ statusText), ConsoleLogResponse x]"
  using assms by (simp add: getJSONObject_unbound ajax_error_unbound)

text \<open>
  Claim C9, at a concrete input: a response with status 400 whose body is a JSON object,
  and a \<^verbatim>\<open>$.parseJSON\<close> that would return the object.
\<close>

theorem getJSONObject_returns_false_witness:
  "getJSONObject (\<lambda>t. Some password_errors) Map.empty (responseText rejected) = JBool False \<and>
   ajax_error (\<lambda>t. Some password_errors) Map.empty (default_settings ''/login'' ''POST'')
       rejected ''error'' =
     [EnableSubmitLater, AfterSubmit, RenderFormErrors (JArr [JStr ''error'']),
      AfterError ''error'' 2 rejected, ConsoleLog ''AJAX Exception: error'',
      ConsoleLogResponse rejected]"
  using getJSONObject_returns_false [of Map.empty "\<lambda>t. Some password_errors"
      "responseText rejected" "default_settings ''/login'' ''POST''" rejected "''error''"]
  by (simp add: afterSubmitCallback_def default_settings_def rejected_def)

text \<open>
  Claim C2 says that a structured validation failure is classified as such and reported
  with severity 0. A response with status 400 and a JSON object as body is reported once,
  as a transport failure: the form-wide message \<^verbatim>\<open>error\<close> and severity 2.
\<close>

theorem validation_failure_gets_severity_2:
  "ajax_error parseJSON Map.empty (default_settings ''/login'' ''POST'') rejected ''error'' =
     [EnableSubmitLater, AfterSubmit, RenderFormErrors (JArr [JStr ''error'']),
      AfterError ''error'' 2 rejected, ConsoleLog ''AJAX Exception: error'',
      ConsoleLogResponse rejected]"
  by (simp add: ajax_error_unbound afterSubmitCallback_def default_settings_def rejected_def)

text \<open>
  Claim C3 says that the object parsed from the body of a failed response is passed to
  \<^verbatim>\<open>errorsCallback\<close>, with severity 0. For the response above, \<^verbatim>\<open>errorsCallback\<close>
  would render the error of the field \<^verbatim>\<open>password\<close>; the error callback neither renders
  it nor reports severity 0, even when \<^verbatim>\<open>$.parseJSON\<close> returns the object.
\<close>

theorem validation_errors_not_routed:
  "errorsCallback (default_settings ''/login'' ''POST'') password_errors =
     [RenderFieldErrors (Name ''password'') (JArr [JStr ''too short''])] \<and>
   RenderFieldErrors (Name ''password'') (JArr [JStr ''too short'']) \<notin>
     set (ajax_error (\<lambda>t. Some password_errors) Map.empty
            (default_settings ''/login'' ''POST'') rejected ''error'') \<and>
   AfterError ''error'' 0 rejected \<notin>
     set (ajax_error (\<lambda>t. Some password_errors) Map.empty
            (default_settings ''/login'' ''POST'') rejected ''error'')"
  by (simp add: ajax_error_unbound afterSubmitCallback_def default_settings_def
      password_errors_def routeError_def)

text \<open>
  Where a global \<^verbatim>\<open>jqXHR\<close> does exist and its \<^verbatim>\<open>responseText\<close> parses to an object,
  the guarded branch runs, and the classification by status runs after it: the failure is
  reported twice.
\<close>

lemma ajax_error_twice:
  "g ''jqXHR'' = Some (JObj [(''responseText'', JStr body)]) \<Longrightarrow>
   parseJSON (Some (JStr body)) = Some (JObj ps) \<Longrightarrow> status x \<noteq> 0 \<Longrightarrow>
   filter (\<lambda>e. case e of AfterError m l r \<Rightarrow> True | _ \<Rightarrow> False)
     (ajax_error parseJSON g s x statusText) =
     [AfterError statusText 0 x, AfterError statusText 2 x]"
  by (simp add: ajax_error_def getJSONObject_def afterSubmitCallback_def routeError_def
      filter_map comp_def split: option.split)

text \<open>
  Claim C6 says that a failure with status 0 renders the form-wide message
  \<^verbatim>\<open>connection lost\<close>. The message of the source is \<^verbatim>\<open>Internet connection Lost\<close>.
\<close>

theorem connection_lost_counterexample:
  "status offline = 0 \<and>
   RenderFormErrors (JArr [JStr ''connection lost'']) \<notin>
     set (ajax_error (\<lambda>t. None) Map.empty (default_settings ''/login'' ''POST'') offline ''error'') \<and>
   RenderFormErrors (JArr [JStr ''Internet connection Lost'']) \<in>
     set (ajax_error (\<lambda>t. None) Map.empty (default_settings ''/login'' ''POST'') offline ''error'')"
  by (simp add: ajax_error_unbound afterSubmitCallback_def default_settings_def offline_def)

text \<open>
  Claim C6, amended: for every failed response with status 0, the error callback passes
  the object \<^verbatim>\<open>{'__all__': ['Internet connection Lost']}\<close> to \<^verbatim>\<open>errorsCallback\<close>,
  which renders it as a form-wide error, then calls \<^verbatim>\<open>afterError\<close> with severity 1, then
  logs. Where the page defines no global \<^verbatim>\<open>jqXHR\<close>, nothing but \<^verbatim>\<open>afterSubmitCallback\<close>
  comes before.
\<close>

theorem connectivity_failure:
  assumes "status x = 0"
  shows "\<exists>pre.
     ajax_error parseJSON g s x statusText =
       pre @
       errorsCallback s (JObj [(''__all__'', JArr [JStr ''Internet connection Lost''])]) @
       [AfterError statusText 1 x,
        ConsoleLog (''AJAX Exception: '' @ statusText), ConsoleLogResponse x] \<and>
     errorsCallback s (JObj [(''__all__'', JArr [JStr ''Internet connection Lost''])]) =
       [RenderFormErrors (JArr [JStr ''Internet connection Lost''])] \<and>
     (g ''jqXHR'' = None \<longrightarrow> pre = afterSubmitCallback s)"
  using assms by (simp add: ajax_error_def getJSONObject_unbound routeError_all Let_def)

text \<open>Claim C6, at a concrete input: a response with status 0 and no body.\<close>

theorem connectivity_failure_witness:
  "status offline = 0 \<and>
   ajax_error (\<lambda>t. None) Map.empty (default_settings ''/login'' ''POST'') offline ''error'' =
     [EnableSubmitLater, AfterSubmit,
      RenderFormErrors (JArr [JStr ''Internet connection Lost'']),
      AfterError ''error'' 1 offline,
      ConsoleLog ''AJAX Exception: error'', ConsoleLogResponse offline]"
  using connectivity_failure [of offline "\<lambda>t. None" Map.empty
      "default_settings ''/login'' ''POST''" "''error''"]
  by (simp add: offline_def afterSubmitCallback_def default_settings_def)

section \<open>Properties of the submit handler\<close>

lemma clearField_throws:
  "\<not> clears accepts s n \<Longrightarrow> clearField accepts s n = (ClearFieldErrors n, Throws (name_selector n))"
  by (auto simp: clears_def clearField_def clearFieldErrors_def split: option.splits if_splits)

lemma each_clearField_clears:
  "each_clearField accepts s names =
     (map (\<lambda>n. fst (clearField accepts s n)) (takeWhile (clears accepts s) names) @
      (case dropWhile (clears accepts s) names of [] \<Rightarrow> [] | n # ns \<Rightarrow> [ClearFieldErrors n]),
      (case dropWhile (clears accepts s) names of
         [] \<Rightarrow> Returns
       | n # ns \<Rightarrow> Throws (name_selector n)))"
proof (induction names)
  case Nil
  show ?case by simp
next
  case (Cons name names)
  show ?case
  proof (cases "clears accepts s name")
    case True
    then obtain e where "clearField accepts s name = (e, Returns)"
      by (cases "clearField accepts s name") (simp add: clears_def)
    with True Cons.IH show ?thesis by simp
  next
    case False
    then show ?thesis
      by (simp add: clearField_throws)
  qed
qed

lemma submit_trace:
  "submit accepts s f =
     ([StopPropagation] @
      map CallData (map fst (filter (\<lambda>p. h_data (snd p) \<noteq> None) (fieldHandlers s))) @
      [CallPrepareData (JObj (snd (collect s f))),
       CallSerializeData (snd (getFormData s f))] @
      (if disableSubmit s then [DisableSubmit] else []) @
      [ClearFormErrors] @
      map (\<lambda>n. fst (clearField accepts s n)) (takeWhile (clears accepts s) (named f)) @
      (case dropWhile (clears accepts s) (named f) of
         [] \<Rightarrow>
           [BeforeSubmit,
            Ajax \<lparr> req_url = url s, req_type = type s, req_timeout = timeout s,
                   req_data = serializeData s (snd (getFormData s f)) \<rparr>]
       | n # ns \<Rightarrow> [ClearFieldErrors n]),
      (case dropWhile (clears accepts s) (named f) of
         [] \<Rightarrow> Returns
       | n # ns \<Rightarrow> Throws (name_selector n)))"
proof -
  obtain es d where g: "getFormData s f = (es, d)"
    by (cases "getFormData s f")
  from g have es: "es = fst (getFormData s f)" and d: "d = snd (getFormData s f)"
    by simp_all
  show ?thesis
  proof (cases "dropWhile (clears accepts s) (named f)")
    case Nil
    show ?thesis
      unfolding submit_def g
      by (simp add: Nil es [unfolded fst_getFormData] d [symmetric] beforeSubmitCallback_def
          each_clearField_clears)
  next
    case (Cons n ns)
    show ?thesis
      unfolding submit_def g
      by (simp add: Cons es [unfolded fst_getFormData] d [symmetric] beforeSubmitCallback_def
          each_clearField_clears)
  qed
qed

lemma accepts_identifier_examples:
  "accepts_identifier (name_selector ''username'')"
  "accepts_identifier (name_selector ''csrf'')"
  "\<not> accepts_identifier (name_selector ''items[]'')"
  by (simp_all add: accepts_identifier_def name_selector_def identifier_char_def)

lemma clears_examples:
  "clears accepts_identifier (default_settings a m) ''username''"
  "clears accepts_identifier (default_settings a m) ''csrf''"
  "\<not> clears accepts_identifier (default_settings a m) ''items[]''"
  "clears accepts_identifier three_sources ''username''"
  "clears accepts_identifier three_sources ''csrf''"
  by (simp_all add: clears_def clearField_def clearFieldErrors_def accepts_identifier_examples
      default_settings_def three_sources_def token_handler_def)

lemma clearing_examples:
  "takeWhile (clears accepts_identifier three_sources) (named login_form) = [''username'', ''csrf'']"
  "dropWhile (clears accepts_identifier three_sources) (named login_form) = []"
  "takeWhile (clears accepts_identifier (default_settings a m)) (named login_form) =
     [''username'', ''csrf'']"
  "dropWhile (clears accepts_identifier (default_settings a m)) (named login_form) = []"
  "takeWhile (clears accepts_identifier (default_settings a m)) (named items_form) = [''username'']"
  "dropWhile (clears accepts_identifier (default_settings a m)) (named items_form) =
     [''items[]'', ''csrf'']"
  by (simp_all add: login_form_def items_form_def clears_examples)

text \<open>
  Claim C5 says that the errors are cleared first, that \<^verbatim>\<open>beforeSubmit\<close> runs next, and
  that the values are collected and serialized only then. In the source the handler calls
  \<^verbatim>\<open>settings.serializeData(getFormData())\<close> before \<^verbatim>\<open>beforeSubmitCallback()\<close>: the
  \<^verbatim>\<open>data()\<close> of the handlers and the serialization come before the clearing and before
  \<^verbatim>\<open>beforeSubmit\<close>.
\<close>

theorem collecting_order_counterexample:
  "before (CallData ''username'') ClearFormErrors
     (fst (submit accepts_identifier three_sources login_form)) \<and>
   before (CallSerializeData login_request) ClearFormErrors
     (fst (submit accepts_identifier three_sources login_form)) \<and>
   before (CallSerializeData login_request) BeforeSubmit
     (fst (submit accepts_identifier three_sources login_form)) \<and>
   \<not> before BeforeSubmit (CallSerializeData login_request)
     (fst (submit accepts_identifier three_sources login_form))"
proof -
  have "fst (submit accepts_identifier three_sources login_form) =
     [StopPropagation, CallData ''csrf'', CallData ''username'',
      CallPrepareData login_request, CallSerializeData login_request,
      DisableSubmit, ClearFormErrors, ClearFieldErrors ''username'', ClearFieldErrors ''csrf'',
      BeforeSubmit,
      Ajax \<lparr> req_url = ''/login'', req_type = ''POST'', req_timeout = 30000,
             req_data = JSON_stringify login_request \<rparr>]"
    unfolding submit_trace clearing_examples
    by (simp add: clearField_def getFormData_def collect_def
        inArray_def three_sources_def login_form_def login_request_def default_settings_def
        token_handler_def)
  then show ?thesis
    by (simp add: before_def)
qed

text \<open>
  Claim C5, amended: in every submission the handler first collects the values (the
  \<^verbatim>\<open>data()\<close> of the handlers, \<^verbatim>\<open>prepareData\<close>) and serializes them; then disables the
  elements matching \<^verbatim>\<open>[type=submit]\<close> when \<^verbatim>\<open>disableSubmit\<close> is set; then clears the
  form-wide errors; then clears the errors of the named elements one after the other (by
  the \<^verbatim>\<open>clear()\<close> of the handler or by \<^verbatim>\<open>clearFieldErrors\<close>). When every one of
  these calls returns, it then runs \<^verbatim>\<open>beforeSubmit\<close> and then sends the request, whose
  body was serialized at the start. When the default \<^verbatim>\<open>clearFieldErrors\<close> throws at an
  element, because the selector engine rejects the selector made from its name, the
  handler ends there with that exception: the elements after it are not cleared,
  \<^verbatim>\<open>beforeSubmit\<close> does not run and no request is sent.
\<close>

theorem collecting_order:
  "submit accepts s f =
     ([StopPropagation] @
      map CallData (map fst (filter (\<lambda>p. h_data (snd p) \<noteq> None) (fieldHandlers s))) @
      [CallPrepareData (JObj (snd (collect s f))),
       CallSerializeData (snd (getFormData s f))] @
      (if disableSubmit s then [DisableSubmit] else []) @
      [ClearFormErrors] @
      map (\<lambda>n. fst (clearField accepts s n)) (takeWhile (clears accepts s) (named f)) @
      (case dropWhile (clears accepts s) (named f) of
         [] \<Rightarrow>
           [BeforeSubmit,
            Ajax \<lparr> req_url = url s, req_type = type s, req_timeout = timeout s,
                   req_data = serializeData s (snd (getFormData s f)) \<rparr>]
       | n # ns \<Rightarrow> [ClearFieldErrors n]),
      (case dropWhile (clears accepts s) (named f) of
         [] \<Rightarrow> Returns
       | n # ns \<Rightarrow> Throws (name_selector n)))"
  by (rule submit_trace)

text \<open>
  Claim C5, at two concrete inputs: a form whose names the selector engine accepts, and,
  under the default settings, a form with a field named \<^verbatim>\<open>items[]\<close>, where the handler
  stops at that element.
\<close>

theorem collecting_order_witness:
  "submit accepts_identifier three_sources login_form =
     ([StopPropagation, CallData ''csrf'', CallData ''username'',
       CallPrepareData login_request, CallSerializeData login_request,
       DisableSubmit, ClearFormErrors, ClearFieldErrors ''username'', ClearFieldErrors ''csrf'',
       BeforeSubmit,
       Ajax \<lparr> req_url = ''/login'', req_type = ''POST'', req_timeout = 30000,
              req_data = JSON_stringify login_request \<rparr>],
      Returns) \<and>
   submit accepts_identifier (default_settings ''/login'' ''POST'') items_form =
     ([StopPropagation, CallPrepareData items_request, CallSerializeData items_request,
       DisableSubmit, ClearFormErrors, ClearFieldErrors ''username'',
       ClearFieldErrors ''items[]''],
      Throws ''[name=items[]]'')"
  using collecting_order [of accepts_identifier three_sources login_form]
    collecting_order [of accepts_identifier "default_settings ''/login'' ''POST''" items_form]
  unfolding clearing_examples
  by (simp add: clearField_def getFormData_def collect_def inArray_def name_selector_def
      three_sources_def login_form_def login_request_def items_form_def items_request_def
      default_settings_def token_handler_def)

section \<open>Single flight\<close>

lemma fold_perform_map:
  "(\<And>x q. perform (h x) q = q) \<Longrightarrow> fold perform (map h xs) p = p"
  by (induction xs) simp_all

lemma perform_clearField: "perform (fst (clearField accepts s n)) p = p"
  by (simp add: clearField_def split: option.split)

lemma perform_routeError: "perform (routeError s k name v) p = p"
  by (simp add: routeError_def split: option.split)

lemma perform_errorsCallback: "fold perform (errorsCallback s v) p = p"
  by (cases v) (simp_all add: fold_perform_map perform_routeError)

lemma perform_submit:
  "fold perform (fst (submit accepts s f)) p =
     p \<lparr> submit_disabled := disableSubmit s \<or> submit_disabled p,
         outstanding :=
           (if snd (submit accepts s f) = Returns then Suc (outstanding p) else outstanding p) \<rparr>"
proof (cases "dropWhile (clears accepts s) (named f)")
  case Nil
  show ?thesis
    by (simp add: submit_trace Nil fold_perform_map perform_clearField)
next
  case (Cons n ns)
  show ?thesis
    by (simp add: submit_trace Cons fold_perform_map perform_clearField)
qed

lemma perform_ajax_success:
  "fold perform (ajax_success s resp) p =
     p \<lparr> enable_timers := (if disableSubmit s then Suc (enable_timers p) else enable_timers p) \<rparr>"
  by (simp add: ajax_success_def afterSubmitCallback_def)

lemma perform_ajax_error:
  "fold perform (ajax_error parseJSON g s x statusText) p =
     p \<lparr> enable_timers := (if disableSubmit s then Suc (enable_timers p) else enable_timers p) \<rparr>"
  by (simp add: ajax_error_def afterSubmitCallback_def perform_errorsCallback perform_routeError Let_def)

lemma single_flight_react:
  assumes "disableSubmit s" and "deliverable e p" and "by_type_submit e" and "single_flight p"
  shows "single_flight (react accepts parseJSON g s e p)"
proof (cases e)
  case (SubmitEvent t f)
  with assms show ?thesis
    by (auto simp: single_flight_def perform_submit)
next
  case (Succeeds resp)
  with assms show ?thesis
    by (auto simp: single_flight_def perform_ajax_success)
next
  case (Fails x statusText)
  with assms show ?thesis
    by (auto simp: single_flight_def perform_ajax_error)
next
  case TimerFires
  with assms show ?thesis
    by (auto simp: single_flight_def)
qed

lemma single_flight_run:
  assumes "disableSubmit s"
  shows "run accepts parseJSON g s es p = Some q \<Longrightarrow> list_all by_type_submit es \<Longrightarrow>
    single_flight p \<Longrightarrow> single_flight q"
proof (induction es arbitrary: p)
  case Nil
  then show ?case by simp
next
  case (Cons e es)
  from Cons.prems(1) have d: "deliverable e p"
    and r: "run accepts parseJSON g s es (react accepts parseJSON g s e p) = Some q"
    by (simp_all split: if_splits)
  from Cons.prems(2) have b: "by_type_submit e" and bs: "list_all by_type_submit es"
    by simp_all
  from assms d b Cons.prems(3) have "single_flight (react accepts parseJSON g s e p)"
    by (rule single_flight_react)
  with r bs show ?case by (rule Cons.IH)
qed

lemma submit_login_returns:
  "snd (submit accepts_identifier (default_settings ''/login'' ''POST'') login_form) = Returns"
  unfolding submit_trace clearing_examples by simp

lemma submit_items_throws:
  "snd (submit accepts_identifier (default_settings ''/login'' ''POST'') items_form) =
     Throws ''[name=items[]]''"
  unfolding submit_trace clearing_examples by (simp add: name_selector_def)

text \<open>
  Claim C4 says that a second submit trigger while a request is outstanding sends no
  second request. The handler has no guard: with \<^verbatim>\<open>disableSubmit\<close> set, two submit
  events triggered one after the other by a script, or by a control that does not match
  \<^verbatim>\<open>[type=submit]\<close>, leave two requests outstanding.
\<close>

theorem no_single_flight_guard_counterexample:
  "disableSubmit (default_settings ''/login'' ''POST'') \<and>
   run accepts_identifier (\<lambda>t. None) Map.empty (default_settings ''/login'' ''POST'')
       [SubmitEvent Script login_form, SubmitEvent Script login_form] idle =
     Some \<lparr> submit_disabled = True, outstanding = 2, enable_timers = 0 \<rparr> \<and>
   run accepts_identifier (\<lambda>t. None) Map.empty (default_settings ''/login'' ''POST'')
       [SubmitEvent OtherControl login_form, SubmitEvent OtherControl login_form] idle =
     Some \<lparr> submit_disabled = True, outstanding = 2, enable_timers = 0 \<rparr> \<and>
   length (filter (\<lambda>e. case e of Ajax r \<Rightarrow> True | _ \<Rightarrow> False)
       (fst (submit accepts_identifier (default_settings ''/login'' ''POST'') login_form) @
        fst (submit accepts_identifier (default_settings ''/login'' ''POST'') login_form))) = 2"
proof -
  have "length (filter (\<lambda>e. case e of Ajax r \<Rightarrow> True | _ \<Rightarrow> False)
      (fst (submit accepts_identifier (default_settings ''/login'' ''POST'') login_form))) = 1"
    unfolding submit_trace clearing_examples
    by (simp add: clearField_def default_settings_def)
  then show ?thesis
    by (simp add: perform_submit submit_login_returns idle_def) (simp add: default_settings_def)
qed

text \<open>
  Claim C4, amended: the handler has no guard of its own; for every submit event, whatever
  is outstanding, it sends one request when the clearing of the field errors returns, and
  none when the clearing throws. With \<^verbatim>\<open>disableSubmit\<close> set, and when every submit event
  is triggered by an element that matches \<^verbatim>\<open>[type=submit]\<close> (the elements that the
  plugin disables) while that element is enabled, at most one request is outstanding at
  any time, and these elements are disabled while it is.
\<close>

theorem single_flight_by_type_submit:
  assumes "disableSubmit s"
    and "list_all by_type_submit es"
    and "run accepts parseJSON g s es idle = Some p"
  shows "outstanding (react accepts parseJSON g s (SubmitEvent t f) q) =
       (if snd (submit accepts s f) = Returns then Suc (outstanding q) else outstanding q) \<and>
     outstanding p \<le> 1 \<and> (0 < outstanding p \<longrightarrow> submit_disabled p)"
proof -
  have "single_flight idle"
    by (simp add: single_flight_def idle_def)
  with assms have "single_flight p"
    by (simp add: single_flight_run)
  then show ?thesis
    by (auto simp: single_flight_def perform_submit)
qed

text \<open>
  Claim C4, at a concrete input: a submission, its failure, the timer, and a second
  submission, all by an element matching \<^verbatim>\<open>[type=submit]\<close>; a second submit event that
  the disabled element does not trigger; and a submit event of a form with a field named
  \<^verbatim>\<open>items[]\<close>, which sends no request.
\<close>

theorem single_flight_by_type_submit_witness:
  "disableSubmit (default_settings ''/login'' ''POST'') \<and>
   list_all by_type_submit
     [SubmitEvent TypeSubmitElement login_form, Fails rejected ''error'', TimerFires,
      SubmitEvent TypeSubmitElement login_form] \<and>
   run accepts_identifier (\<lambda>t. None) Map.empty (default_settings ''/login'' ''POST'')
       [SubmitEvent TypeSubmitElement login_form, Fails rejected ''error'', TimerFires,
        SubmitEvent TypeSubmitElement login_form] idle =
     Some \<lparr> submit_disabled = True, outstanding = 1, enable_timers = 0 \<rparr> \<and>
   run accepts_identifier (\<lambda>t. None) Map.empty (default_settings ''/login'' ''POST'')
       [SubmitEvent TypeSubmitElement login_form, SubmitEvent TypeSubmitElement login_form] idle =
     None \<and>
   outstanding (react accepts_identifier (\<lambda>t. None) Map.empty
       (default_settings ''/login'' ''POST'') (SubmitEvent TypeSubmitElement items_form) idle) = 0"
  using single_flight_by_type_submit [of "default_settings ''/login'' ''POST''"
      "[SubmitEvent TypeSubmitElement login_form, Fails rejected ''error'', TimerFires,
        SubmitEvent TypeSubmitElement login_form]"
      accepts_identifier "\<lambda>t. None" Map.empty
      "\<lparr> submit_disabled = True, outstanding = 1, enable_timers = 0 \<rparr>"
      TypeSubmitElement items_form idle]
  by (simp add: perform_submit perform_ajax_error submit_login_returns submit_items_throws idle_def)
    (simp add: default_settings_def)

section \<open>The round trip of the default serialization\<close>

lemma hexval_hexdigit: "d < 16 \<Longrightarrow> hexval (hexdigit d) = Some d"
  by (auto simp: hexval_def hexdigit_def Let_def)

lemma hexval_zero: "hexval CHR ''0'' = Some 0"
  by (simp add: hexval_def)

lemma unicode_escape_control:
  assumes "(of_char c :: nat) < 32"
  shows "unicode_escape CHR ''0'' CHR ''0'' (hexdigit (of_char c div 16)) (hexdigit (of_char c mod 16)) = Some [c]"
proof -
  have a: "hexval (hexdigit (of_char c div 16)) = Some (of_char c div 16)"
    using assms by (intro hexval_hexdigit) simp
  have b: "hexval (hexdigit (of_char c mod 16)) = Some (of_char c mod 16)"
    by (intro hexval_hexdigit) simp
  have "16 * ((of_char c :: nat) div 16) + of_char c mod 16 = of_char c"
    by simp
  with assms show ?thesis
    by (simp add: unicode_escape_def hexval_zero a b utf8_def)
qed

lemma lex_quote_char:
  "lex (Some acc) (quote_char c @ rest) = lex (Some (acc @ [c])) rest"
proof -
  consider (dq) "c = dquote"
    | (bs) "c \<noteq> dquote" "c = backslash"
    | (named) "c \<noteq> dquote" "c \<noteq> backslash" "c \<in> {CHR 0x08, CHR 0x0C, CHR 0x0A, CHR 0x0D, CHR 0x09}"
    | (control) "c \<noteq> dquote" "c \<noteq> backslash" "c \<notin> {CHR 0x08, CHR 0x0C, CHR 0x0A, CHR 0x0D, CHR 0x09}"
        "(of_char c :: nat) < 32"
    | (plain) "c \<noteq> dquote" "c \<noteq> backslash" "c \<notin> {CHR 0x08, CHR 0x0C, CHR 0x0A, CHR 0x0D, CHR 0x09}"
        "\<not> (of_char c :: nat) < 32"
    by blast
  then show ?thesis
  proof cases
    case dq
    then show ?thesis
      by (simp add: quote_char_def unescape_def dquote_def backslash_def)
  next
    case bs
    then show ?thesis
      by (simp add: quote_char_def unescape_def dquote_def backslash_def)
  next
    case named
    then show ?thesis
      by (auto simp: quote_char_def unescape_def dquote_def backslash_def)
  next
    case control
    then show ?thesis
      by (simp add: quote_char_def unicode_escape_control dquote_def backslash_def)
  next
    case plain
    then show ?thesis
      by (simp add: quote_char_def)
  qed
qed

lemma lex_string_body:
  "lex (Some acc) (concat (map quote_char s) @ dquote # rest) =
     map_option ((#) (TString (acc @ s))) (lex None rest)"
proof (induction s arbitrary: acc)
  case Nil
  show ?case by simp
next
  case (Cons c s)
  show ?case
    by (simp add: lex_quote_char Cons.IH)
qed

lemma lex_quote:
  "lex None (quote s @ rest) = map_option ((#) (TString s)) (lex None rest)"
  using lex_string_body [of "[]" s rest]
  by (simp add: quote_def dquote_def whitespace_def)

lemma lex_member:
  "lex None (quote k @ '':'' @ quote v @ rest) =
     map_option (\<lambda>ts. TString k # TColon # TString v # ts) (lex None rest)"
  by (simp add: lex_quote whitespace_def dquote_def option.map_comp comp_def)

lemma lex_members:
  "kvs \<noteq> [] \<Longrightarrow>
   \<exists>ts. lex None (join '','' (map (\<lambda>p. quote (fst p) @ '':'' @ quote (snd p)) kvs) @ ''}'') = Some ts \<and>
        (\<forall>obj. members ts obj = Some (fold (\<lambda>p. AList.update (fst p) (JStr (snd p))) kvs obj))"
proof (induction kvs)
  case Nil
  then show ?case by simp
next
  case (Cons p kvs)
  show ?case
  proof (cases kvs)
    case Nil
    have "lex None ((quote (fst p) @ '':'' @ quote (snd p)) @ ''}'') =
        Some [TString (fst p), TColon, TString (snd p), TRBrace]"
      unfolding append_assoc lex_member by (simp add: whitespace_def dquote_def)
    with Nil show ?thesis by simp
  next
    case (Cons q kvs')
    then have "kvs \<noteq> []" by simp
    from Cons.IH [OF this] obtain ts
      where ts: "lex None (join '','' (map (\<lambda>p. quote (fst p) @ '':'' @ quote (snd p)) kvs) @ ''}'') = Some ts"
        and ms: "\<And>obj. members ts obj = Some (fold (\<lambda>p. AList.update (fst p) (JStr (snd p))) kvs obj)"
      by blast
    have "lex None ((quote (fst p) @ '':'' @ quote (snd p)) @ '','' @
        join '','' (map (\<lambda>p. quote (fst p) @ '':'' @ quote (snd p)) kvs) @ ''}'') =
        Some (TString (fst p) # TColon # TString (snd p) # TComma # ts)"
      unfolding append_assoc lex_member using ts by (simp add: whitespace_def dquote_def)
    with Cons ms show ?thesis by simp
  qed
qed

lemma update_new: "k \<notin> fst ` set obj \<Longrightarrow> AList.update k v obj = obj @ [(k, v)]"
  by (induction obj) auto

lemma fold_update_distinct:
  "distinct (map fst kvs) \<Longrightarrow> fst ` set obj \<inter> fst ` set kvs = {} \<Longrightarrow>
   fold (\<lambda>p. AList.update (fst p) (JStr (snd p))) kvs obj =
     obj @ map (\<lambda>p. (fst p, JStr (snd p))) kvs"
proof (induction kvs arbitrary: obj)
  case Nil
  show ?case by simp
next
  case (Cons p kvs)
  from Cons.prems have new: "fst p \<notin> fst ` set obj"
    by auto
  from Cons.prems have "fst ` set (obj @ [(fst p, JStr (snd p))]) \<inter> fst ` set kvs = {}"
    by auto
  with Cons.prems Cons.IH [of "obj @ [(fst p, JStr (snd p))]"] new show ?case
    by (simp add: update_new)
qed

lemma stringify_string_payload:
  "JSON_stringify (string_payload kvs) =
     ''{'' @ join '','' (map (\<lambda>p. quote (fst p) @ '':'' @ quote (snd p)) kvs) @ ''}''"
  by (simp add: string_payload_def comp_def)

lemma parse_stringify:
  assumes "distinct (map fst kvs)"
  shows "parse_string_object (JSON_stringify (string_payload kvs)) = Some (string_payload kvs)"
proof (cases "kvs = []")
  case True
  then show ?thesis
    by (simp add: parse_string_object_def string_payload_def whitespace_def dquote_def)
next
  case False
  from lex_members [OF this] obtain ts
    where ts: "lex None (join '','' (map (\<lambda>p. quote (fst p) @ '':'' @ quote (snd p)) kvs) @ ''}'') = Some ts"
      and ms: "members ts [] = Some (fold (\<lambda>p. AList.update (fst p) (JStr (snd p))) kvs [])"
    by blast
  from ms have "ts \<noteq> [TRBrace]"
    by auto
  moreover have "fold (\<lambda>p. AList.update (fst p) (JStr (snd p))) kvs [] =
      map (\<lambda>p. (fst p, JStr (snd p))) kvs"
    using assms fold_update_distinct [of kvs "[]"] by simp
  ultimately have "parse_string_object
      (''{'' @ join '','' (map (\<lambda>p. quote (fst p) @ '':'' @ quote (snd p)) kvs) @ ''}'') =
      Some (JObj (map (\<lambda>p. (fst p, JStr (snd p))) kvs))"
    using ts ms by (simp add: parse_string_object_def whitespace_def dquote_def)
  then show ?thesis
    unfolding stringify_string_payload by (simp only: string_payload_def)
qed

text \<open>
  Claim C8: the default \<^verbatim>\<open>prepareData\<close> is the identity, and for every payload whose
  values are all strings, parsing the result of the default \<^verbatim>\<open>serializeData\<close> on the
  result of the default \<^verbatim>\<open>prepareData\<close> gives the payload back.
\<close>

theorem default_serialization_round_trip:
  assumes "distinct (map fst kvs)"
  shows "prepareData (default_settings action method) d = d \<and>
     parse_string_object
       (serializeData (default_settings action method)
          (prepareData (default_settings action method) (string_payload kvs))) =
     Some (string_payload kvs)"
  using assms by (simp add: default_settings_def parse_stringify)

lemma char_of_digits: "char_of (48 :: nat) = CHR ''0''" "char_of (49 :: nat) = CHR ''1''"
  by code_simp+

text \<open>
  Claim C8, at a concrete input: a value with a double quote, a backslash, a line feed and
  the control character U+0001.
\<close>

theorem default_serialization_round_trip_witness:
  "serializeData (default_settings ''/login'' ''POST'')
     (string_payload [(''username'', ''abc''), (''password'', [CHR 0x22, CHR 0x5C, CHR 0x0A, CHR 0x01])]) =
     [CHR ''{'', dquote, CHR ''u'', CHR ''s'', CHR ''e'', CHR ''r'', CHR ''n'', CHR ''a'', CHR ''m'', CHR ''e'', dquote,
      CHR '':'', dquote, CHR ''a'', CHR ''b'', CHR ''c'', dquote, CHR '','',
      dquote, CHR ''p'', CHR ''a'', CHR ''s'', CHR ''s'', CHR ''w'', CHR ''o'', CHR ''r'', CHR ''d'', dquote,
      CHR '':'', dquote, backslash, dquote, backslash, backslash, backslash, CHR ''n'',
      backslash, CHR ''u'', CHR ''0'', CHR ''0'', CHR ''0'', CHR ''1'', dquote, CHR ''}''] \<and>
   parse_string_object
     (serializeData (default_settings ''/login'' ''POST'')
        (prepareData (default_settings ''/login'' ''POST'')
           (string_payload [(''username'', ''abc''), (''password'', [CHR 0x22, CHR 0x5C, CHR 0x0A, CHR 0x01])]))) =
     Some (JObj [(''username'', JStr ''abc''), (''password'', JStr [CHR 0x22, CHR 0x5C, CHR 0x0A, CHR 0x01])])"
  using default_serialization_round_trip [of "[(''username'', ''abc''), (''password'', [CHR 0x22, CHR 0x5C, CHR 0x0A, CHR 0x01])]"
      "''/login''" "''POST''" JNull]
  by (simp add: default_settings_def string_payload_def quote_def quote_char_def dquote_def
      backslash_def hexdigit_def char_of_digits)

end
